theory Spec2Isabelle
  imports Main "HOL-Library.Word"
begin

section \<open>JavaScript values\<close>

text \<open>
  A JavaScript string is a sequence of UTF-16 code units. Property names, tag names and
  the other identifiers of the source text are ASCII and are kept as HOL strings;
  \<open>js\<close> turns an ASCII literal of the source into the string value it denotes.
\<close>

type_synonym jsstring = "16 word list"

definition js :: "string \<Rightarrow> jsstring" where
  "js s = map of_char s"

text \<open>
  The values that flow through the props and callbacks. Numbers are the integers
  (indices, lengths, limits); \<open>NaN\<close>, infinities and fractions are outside the model.
\<close>

datatype jsval =
    JUndefined
  | JNull
  | JBool bool
  | JNum int
  | JStr jsstring
  | JArr "jsval list"
  | JObj "(string \<times> jsval) list"

text \<open>\<open>Boolean(v)\<close>, the test behind \<open>if (v)\<close>, \<open>v && w\<close>, \<open>v || w\<close> and \<open>v ? a : b\<close>.\<close>

fun truthy :: "jsval \<Rightarrow> bool" where
  "truthy JUndefined = False"
| "truthy JNull = False"
| "truthy (JBool b) = b"
| "truthy (JNum n) = (n \<noteq> 0)"
| "truthy (JStr s) = (s \<noteq> [])"
| "truthy (JArr xs) = True"
| "truthy (JObj kvs) = True"

text \<open>\<open>a || b\<close> on values.\<close>

definition js_or :: "jsval \<Rightarrow> jsval \<Rightarrow> jsval" where
  "js_or a b = (if truthy a then a else b)"

text \<open>\<open>xs[i]\<close> on an array: \<open>undefined\<close> out of range.\<close>

definition js_index :: "jsval list \<Rightarrow> nat \<Rightarrow> jsval" where
  "js_index xs i = (if i < length xs then xs ! i else JUndefined)"

section \<open>The props contract of the host library\<close>

text \<open>
  A host callback is identified by a value of type \<open>'f\<close> (its function identity).
  What a component does to the outside is a list of effects, in the order they happen:
  a call of a host callback with its arguments, or a line on the error console.
\<close>

datatype 'f effect =
    Invoke 'f "jsval list"
  | ConsoleError jsval

record RJSFSchema =
  schema_type :: jsval
  examples :: jsval
  schema_default :: jsval
  enumNames :: "jsval list option"

record EnumOptionsType =
  option_value :: jsval
  option_label :: jsval

text \<open>
  The options bag, with the entries the components read. \<open>maxByteLength\<close> is a number
  when it is set; the other entries are read as they come.
\<close>

record UIOptions =
  options_title :: jsval
  accept :: jsval
  options_multiple :: jsval
  maxByteLength :: "int option"
  rows :: jsval
  emptyValue :: jsval
  enumOptions :: "EnumOptionsType list option"

record 'f WidgetProps =
  id' :: jsstring
  value' :: jsval
  required :: jsval
  disabled :: jsval
  readonly :: jsval
  autofocus :: jsval
  onChange :: 'f
  onBlur :: "'f option"
  onFocus :: "'f option"
  onChangeOverride :: "'f option"
  options :: UIOptions
  schema :: RJSFSchema
  type' :: jsval
  label :: jsval
  placeholder :: jsval
  multiple :: jsval

section \<open>Markup and hooks\<close>

text \<open>
  What a component returns: elements with their attributes in the order of the source
  (a later attribute of the same name, as a spread can bring, overrides an earlier one),
  fragments, and \<open>{expression}\<close> children, of which React shows strings and numbers as
  text and nothing for booleans, \<open>null\<close> and \<open>undefined\<close>. Event handlers are not
  markup and are left out.
\<close>

datatype markup =
    Element string "(string \<times> jsval) list" "markup list"
  | Fragment "markup list"
  | Expr jsval

text \<open>
  \<open>useMemo(factory, deps)\<close>: React keeps the dependencies and the value of the last
  render that computed it, and hands the value back while the dependencies stay the
  same; \<open>useCallback(callback, deps)\<close> does the same with the callback itself. The
  values of props are taken to be immutable, as React requires.
\<close>

definition useMemo :: "('d \<times> 'v) option \<Rightarrow> 'v \<Rightarrow> 'd \<Rightarrow> 'd \<times> 'v" where
  "useMemo cell computed deps =
     (case cell of
        None \<Rightarrow> (deps, computed)
      | Some (deps0, value0) \<Rightarrow> if deps0 = deps then (deps0, value0) else (deps, computed))"

definition useCallback :: "('d \<times> 'c) option \<Rightarrow> 'c \<Rightarrow> 'd \<Rightarrow> 'd \<times> 'c" where
  "useCallback cell callback deps = useMemo cell callback deps"

section \<open>FileWidget\<close>

text \<open>\<open>const isMulti = schema.type === "array" || Boolean(options.multiple)\<close>\<close>

definition isMulti :: "'f WidgetProps \<Rightarrow> bool" where
  "isMulti p \<longleftrightarrow>
     schema_type (schema p) = JStr (js ''array'') \<or> truthy (options_multiple (options p))"

text \<open>
  \<open>event.target.files\<close> of an event of the file input: \<open>null\<close>, or the list of
  selected \<open>File\<close> objects.
\<close>

record FileInputEvent =
  files :: "jsval list option"

text \<open>
  One change event starts one \<open>FileReader\<close> per selected file and aggregates the
  per-file promises with \<open>Promise.all\<close>. The browser later fires, for each reader and
  once only, either \<open>onload\<close> (with the data URL in \<open>reader.result\<close>) or
  \<open>onerror\<close>; the order in which the readers finish is the browser's choice.
\<close>

datatype reader_status = Reading | Loaded jsstring | Failed jsval

datatype promise_state = Pending | Fulfilled | Rejected jsval

datatype reader_event = OnLoad nat jsstring | OnError nat jsval

text \<open>
  The state of the widget while it handles one change event: the \<open>isLoading\<close> flag of
  \<open>useState\<close>, the readers of the selected files (in the order of \<open>fileList\<close>), the
  promise \<open>dataUrlsPromise\<close> and the effects so far.
\<close>

record 'f FileWidget_state =
  isLoading :: bool
  readers :: "reader_status list"
  dataUrlsPromise :: promise_state
  effects :: "'f effect list"

fun the_dataUrls :: "reader_status list \<Rightarrow> jsstring list option" where
  "the_dataUrls [] = Some []"
| "the_dataUrls (Loaded u # rs) = map_option ((#) u) (the_dataUrls rs)"
| "the_dataUrls (_ # rs) = None"

text \<open>
  The \<open>.then\<close> callback:
  \<^verbatim>\<open>setIsLoading(false);
  if (isMulti) { onChange(dataUrls); } else { onChange(dataUrls[0] || null); }\<close>
\<close>

definition on_fulfilled ::
  "'f WidgetProps \<Rightarrow> jsstring list \<Rightarrow> 'f FileWidget_state \<Rightarrow> 'f FileWidget_state" where
  "on_fulfilled p dataUrls s =
     s\<lparr>isLoading := False,
       effects := effects s @
         [if isMulti p then Invoke (onChange p) [JArr (map JStr dataUrls)]
          else Invoke (onChange p) [js_or (js_index (map JStr dataUrls) 0) JNull]]\<rparr>"

text \<open>
  The \<open>.catch\<close> callback: \<^verbatim>\<open>setIsLoading(false); console.error(error);\<close>
  It would also receive an exception thrown by the \<open>.then\<close> callback; the host's
  \<open>onChange\<close> is taken to return normally.
\<close>

definition on_rejected :: "jsval \<Rightarrow> 'f FileWidget_state \<Rightarrow> 'f FileWidget_state" where
  "on_rejected error s =
     s\<lparr>isLoading := False, effects := effects s @ [ConsoleError error]\<rparr>"

text \<open>
  \<open>Promise.all\<close>: while pending, it is rejected by the first reader that fails, with
  that reader's error, and fulfilled when every reader has loaded, with the results in
  the order of the input array. A settled promise never changes. The reactions
  (\<open>.then\<close>, \<open>.catch\<close>) are microtasks: they run before the next reader event is
  delivered, so they are part of the step that settles the promise.
\<close>

definition settle ::
  "'f WidgetProps \<Rightarrow> 'f FileWidget_state \<Rightarrow> 'f FileWidget_state" where
  "settle p s =
     (case dataUrlsPromise s of
        Pending \<Rightarrow>
          (case the_dataUrls (readers s) of
             Some dataUrls \<Rightarrow> on_fulfilled p dataUrls (s\<lparr>dataUrlsPromise := Fulfilled\<rparr>)
           | None \<Rightarrow> s)
      | _ \<Rightarrow> s)"

text \<open>
  \<open>handleChange\<close>, the synchronous part. With \<open>event.target.files\<close> null the handler
  returns at once and nothing is started (\<open>None\<close>). Otherwise \<open>isLoading\<close> is set and
  one reader per file is started; for an empty list \<open>Promise.all([])\<close> is fulfilled
  without waiting for any reader.
\<close>

definition FileWidget_handleChange ::
  "'f WidgetProps \<Rightarrow> FileInputEvent \<Rightarrow> 'f FileWidget_state option" where
  "FileWidget_handleChange p event =
     (case files event of
        None \<Rightarrow> None
      | Some fileList \<Rightarrow>
          Some (settle p \<lparr>isLoading = True, readers = map (\<lambda>file. Reading) fileList,
                          dataUrlsPromise = Pending, effects = []\<rparr>))"

text \<open>
  One reader event. A reader fires once: an event for a reader that is not reading
  (or that does not exist) changes nothing. \<open>reader.onload\<close> resolves the file's promise
  with \<open>reader.result\<close>, \<open>reader.onerror\<close> rejects it.
\<close>

fun reader_fires ::
  "'f WidgetProps \<Rightarrow> 'f FileWidget_state \<Rightarrow> reader_event \<Rightarrow> 'f FileWidget_state" where
  "reader_fires p s (OnLoad i result) =
     (if i < length (readers s) \<and> readers s ! i = Reading
      then settle p (s\<lparr>readers := (readers s)[i := Loaded result]\<rparr>)
      else s)"
| "reader_fires p s (OnError i error) =
     (if i < length (readers s) \<and> readers s ! i = Reading
      then (case dataUrlsPromise s of
              Pending \<Rightarrow>
                on_rejected error
                  (s\<lparr>readers := (readers s)[i := Failed error],
                     dataUrlsPromise := Rejected error\<rparr>)
            | _ \<Rightarrow> s\<lparr>readers := (readers s)[i := Failed error]\<rparr>)
      else s)"

text \<open>The widget after a change event and the reader events that followed it.\<close>

definition FileWidget_run ::
  "'f WidgetProps \<Rightarrow> FileInputEvent \<Rightarrow> reader_event list \<Rightarrow> 'f FileWidget_state option" where
  "FileWidget_run p event evs =
     map_option (\<lambda>s. foldl (reader_fires p) s evs) (FileWidget_handleChange p event)"

text \<open>The calls of the callback \<open>f\<close> among the effects: their arguments, in order.\<close>

definition invocations :: "'f \<Rightarrow> 'f effect list \<Rightarrow> jsval list list" where
  "invocations f es = concat (map (\<lambda>e. case e of Invoke g args \<Rightarrow> if g = f then [args] else []
                                          | ConsoleError _ \<Rightarrow> []) es)"




text \<open>
  What holds of the widget at every moment after a change event: while the promise is
  pending nothing has been reported and some reader is still reading; once it is
  fulfilled every reader has loaded and the one effect is the \<open>.then\<close> callback's;
  once it is rejected the one effect is the console line with the rejecting error.
\<close>

definition FileWidget_inv :: "'f WidgetProps \<Rightarrow> 'f FileWidget_state \<Rightarrow> bool" where
  "FileWidget_inv p s \<longleftrightarrow>
     (case dataUrlsPromise s of
        Pending \<Rightarrow> isLoading s \<and> effects s = [] \<and> Reading \<in> set (readers s)
                   \<and> (\<forall>e. Failed e \<notin> set (readers s))
      | Fulfilled \<Rightarrow> \<not> isLoading s
                   \<and> (\<exists>us. readers s = map Loaded us
                        \<and> effects s = effects (on_fulfilled p us (s\<lparr>effects := []\<rparr>)))
      | Rejected e \<Rightarrow> \<not> isLoading s \<and> effects s = [ConsoleError e]
                   \<and> Failed e \<in> set (readers s))"





section \<open>Strings of the platform\<close>

text \<open>
  \<open>new TextEncoder().encode(s).length\<close>: the number of bytes of the UTF-8 encoding of a
  string of UTF-16 code units. A surrogate pair is one code point of four bytes; a
  surrogate that is not part of a pair is replaced by U+FFFD, which takes three bytes.
\<close>

fun TextEncoder_encode_length :: "jsstring \<Rightarrow> nat" where
  "TextEncoder_encode_length [] = 0"
| "TextEncoder_encode_length (c # cs) =
     (if c < 0x80 then 1 + TextEncoder_encode_length cs
      else if c < 0x800 then 2 + TextEncoder_encode_length cs
      else if 0xD800 \<le> c \<and> c \<le> 0xDBFF then
        (case cs of
           [] \<Rightarrow> 3
         | d # ds \<Rightarrow>
             if 0xDC00 \<le> d \<and> d \<le> 0xDFFF then 4 + TextEncoder_encode_length ds
             else 3 + TextEncoder_encode_length cs)
      else 3 + TextEncoder_encode_length cs)"

text \<open>\<open>String(n)\<close> for a natural number: its decimal digits.\<close>

fun decimal :: "nat \<Rightarrow> jsstring" where
  "decimal n =
     (if n < 10 then [of_nat (48 + n)] else decimal (n div 10) @ [of_nat (48 + n mod 10)])"

declare decimal.simps [simp del]

text \<open>
  \<open>String(v)\<close>. A number is printed in decimal (as JavaScript does below \<open>10^21\<close>); an
  array is the comma-separated strings of its elements, \<open>null\<close> and \<open>undefined\<close>
  elements being empty; an object without a \<open>toString\<close> of its own is
  \<open>[object Object]\<close>.
\<close>

fun js_String :: "jsval \<Rightarrow> jsstring"
  and js_join :: "jsval list \<Rightarrow> jsstring" where
  "js_String JUndefined = js ''undefined''"
| "js_String JNull = js ''null''"
| "js_String (JBool b) = (if b then js ''true'' else js ''false'')"
| "js_String (JNum n) = (if n < 0 then js ''-'' @ decimal (nat (- n)) else decimal (nat n))"
| "js_String (JStr s) = s"
| "js_String (JArr xs) = js_join xs"
| "js_String (JObj kvs) = js ''[object Object]''"
| "js_join [] = []"
| "js_join (JUndefined # xs) = (if xs = [] then [] else js '','' @ js_join xs)"
| "js_join (JNull # xs) = (if xs = [] then [] else js '','' @ js_join xs)"
| "js_join (x # xs) = (if xs = [] then js_String x else js_String x @ js '','' @ js_join xs)"

section \<open>TextareaWidget\<close>

text \<open>\<open>event.target.value\<close> of a change, focus or blur event of a text control.\<close>

record TextEvent =
  target_value :: jsstring

text \<open>
  \<open>new TextEncoder().encode(v).length\<close> for a value: \<open>encode\<close> takes the empty string
  for \<open>undefined\<close> and \<open>String(v)\<close> otherwise.
\<close>

definition encode_length :: "jsval \<Rightarrow> nat" where
  "encode_length v =
     (case v of
        JUndefined \<Rightarrow> 0
      | _ \<Rightarrow> TextEncoder_encode_length (js_String v))"

text \<open>
  \<open>maxByteLength && n > maxByteLength\<close> as a condition: the limit is set and not zero,
  and \<open>n\<close> is above it.
\<close>

definition over_limit :: "int option \<Rightarrow> nat \<Rightarrow> bool" where
  "over_limit limit n =
     (case limit of None \<Rightarrow> False | Some m \<Rightarrow> m \<noteq> 0 \<and> int n > m)"

text \<open>
  \<open>handleChange\<close> as the closure made in a render with props \<open>p\<close>: it reads
  \<open>maxByteLength\<close> and \<open>onChange\<close> of that render.
\<close>

definition TextareaWidget_handleChange :: "'f WidgetProps \<Rightarrow> TextEvent \<Rightarrow> 'f effect list" where
  "TextareaWidget_handleChange p event =
     (if over_limit (maxByteLength (options p)) (TextEncoder_encode_length (target_value event))
      then []
      else [Invoke (onChange p) [JStr (target_value event)]])"

text \<open>
  The dependencies of \<open>handleChange\<close> in the widget:
  \<open>[onChange, byteLength > maxByteLength]\<close>. The comparison with an unset limit is false.
\<close>

definition TextareaWidget_deps :: "'f WidgetProps \<Rightarrow> nat \<Rightarrow> 'f \<times> bool" where
  "TextareaWidget_deps p byteLength =
     (onChange p,
      case maxByteLength (options p) of None \<Rightarrow> False | Some m \<Rightarrow> int byteLength > m)"

text \<open>The limit as a value: \<open>undefined\<close> or the number.\<close>

definition limit_value :: "int option \<Rightarrow> jsval" where
  "limit_value limit = (case limit of None \<Rightarrow> JUndefined | Some m \<Rightarrow> JNum m)"

text \<open>
  The counter under a text control:
  \<^verbatim>\<open>{maxByteLength && (
    <div className="text-right text-xs text-base-content/50 mt-2">
      {byteLength}/{maxByteLength}
    </div>)}\<close>
  With the limit unset or zero the child is that value itself.
\<close>

definition byteLength_counter :: "int option \<Rightarrow> nat \<Rightarrow> markup" where
  "byteLength_counter limit byteLength =
     (if truthy (limit_value limit)
      then Element ''div''
             [(''className'', JStr (js ''text-right text-xs text-base-content/50 mt-2''))]
             [Expr (JNum (int byteLength)), Expr (JStr (js ''/'')), Expr (limit_value limit)]
      else Expr (limit_value limit))"

text \<open>
  The markup of the widget, given the \<open>byteLength\<close> that \<open>useMemo\<close> handed back:
  \<^verbatim>\<open><div className="form-control">
    <textarea id={id} value={value || ""} required={required}
      disabled={disabled || readonly} readOnly={readonly} rows={options?.rows || 5}
      className="textarea textarea-bordered w-full" />
    {maxByteLength && (...)}
  </div>\<close>
\<close>

definition TextareaWidget_markup :: "'f WidgetProps \<Rightarrow> nat \<Rightarrow> markup" where
  "TextareaWidget_markup p byteLength =
     Element ''div'' [(''className'', JStr (js ''form-control''))]
       [Element ''textarea''
          [(''id'', JStr (id' p)),
           (''value'', js_or (value' p) (JStr [])),
           (''required'', required p),
           (''disabled'', js_or (disabled p) (readonly p)),
           (''readOnly'', readonly p),
           (''rows'', js_or (rows (options p)) (JNum 5)),
           (''className'', JStr (js ''textarea textarea-bordered w-full''))] [],
        byteLength_counter (maxByteLength (options p)) byteLength]"

text \<open>
  The hook cells of one mounted widget: that of \<open>useMemo\<close> for \<open>byteLength\<close>
  (dependencies \<open>[value]\<close>) and that of \<open>useCallback\<close> for \<open>handleChange\<close>, which
  holds the props whose render made the callback now installed.
\<close>

record 'f TextareaWidget_hooks =
  byteLength_cell :: "(jsval \<times> nat) option"
  handleChange_cell :: "(('f \<times> bool) \<times> 'f WidgetProps) option"

definition TextareaWidget_mount :: "'f TextareaWidget_hooks" where
  "TextareaWidget_mount = \<lparr>byteLength_cell = None, handleChange_cell = None\<rparr>"

text \<open>One render: the markup and the hook cells after it.\<close>

definition TextareaWidget ::
  "'f WidgetProps \<Rightarrow> 'f TextareaWidget_hooks \<Rightarrow> markup \<times> 'f TextareaWidget_hooks" where
  "TextareaWidget p hooks =
     (let memo = useMemo (byteLength_cell hooks) (encode_length (value' p)) (value' p);
          byteLength = snd memo;
          handleChange = useCallback (handleChange_cell hooks) p (TextareaWidget_deps p byteLength)
      in (TextareaWidget_markup p byteLength,
          \<lparr>byteLength_cell = Some memo, handleChange_cell = Some handleChange\<rparr>))"

text \<open>The hook cells after the renders \<open>ps\<close> of a mounted widget, oldest first.\<close>

definition TextareaWidget_mounted :: "'f WidgetProps list \<Rightarrow> 'f TextareaWidget_hooks" where
  "TextareaWidget_mounted ps = foldl (\<lambda>hooks p. snd (TextareaWidget p hooks)) TextareaWidget_mount ps"

text \<open>A change event on the mounted widget: the installed callback runs.\<close>

definition TextareaWidget_change :: "'f WidgetProps list \<Rightarrow> TextEvent \<Rightarrow> 'f effect list" where
  "TextareaWidget_change ps event =
     (case handleChange_cell (TextareaWidget_mounted ps) of
        None \<Rightarrow> []
      | Some (deps, p0) \<Rightarrow> TextareaWidget_handleChange p0 event)"



section \<open>BaseInputTemplate\<close>

text \<open>
  \<open>_onChange\<close>; its dependencies \<open>[onChange, options]\<close> hold everything it reads:
  \<^verbatim>\<open>if (maxByteLength && new TextEncoder().encode(value).length > maxByteLength) { return; }
  return onChange(value === '' ? options.emptyValue : value);\<close>
\<close>

definition BaseInputTemplate_onChange :: "'f WidgetProps \<Rightarrow> TextEvent \<Rightarrow> 'f effect list" where
  "BaseInputTemplate_onChange p event =
     (if over_limit (maxByteLength (options p)) (TextEncoder_encode_length (target_value event))
      then []
      else [Invoke (onChange p)
              [if target_value event = [] then emptyValue (options p)
               else JStr (target_value event)]])"

text \<open>The event object, as far as a callback that receives it can read it here.\<close>

definition event_object :: "TextEvent \<Rightarrow> jsval" where
  "event_object event = JObj [(''target'', JObj [(''value'', JStr (target_value event))])]"

text \<open>
  The change handler of the input element is \<open>onChangeOverride || _onChange\<close>: with an
  override the host's function receives the event itself and \<open>_onChange\<close> is not used.
\<close>

definition BaseInputTemplate_change :: "'f WidgetProps \<Rightarrow> TextEvent \<Rightarrow> 'f effect list" where
  "BaseInputTemplate_change p event =
     (case onChangeOverride p of
        Some override \<Rightarrow> [Invoke override [event_object event]]
      | None \<Rightarrow> BaseInputTemplate_onChange p event)"













section \<open>SelectWidget\<close>

text \<open>
  The \<open>value\<close> attribute of an option element of the rendered select: the empty string
  for the placeholder option, and \<open>String(i)\<close> for the option of index \<open>i\<close>.
\<close>

datatype select_option_value = Placeholder | Index nat

definition option_string :: "select_option_value \<Rightarrow> jsstring" where
  "option_string v = (case v of Placeholder \<Rightarrow> [] | Index i \<Rightarrow> decimal i)"

text \<open>\<open>Number(s)\<close> for such a string: \<open>Number("")\<close> is 0.\<close>

definition js_Number :: "select_option_value \<Rightarrow> nat" where
  "js_Number v = (case v of Placeholder \<Rightarrow> 0 | Index i \<Rightarrow> i)"

text \<open>
  \<open>event.target.value\<close> and the values of \<open>event.target.selectedOptions\<close> of an event
  of the select element.
\<close>

record SelectEvent =
  select_value :: select_option_value
  selectedOptions :: "select_option_value list"

text \<open>\<open>typeof v === "object"\<close>\<close>

fun typeof_object :: "jsval \<Rightarrow> bool" where
  "typeof_object JNull = True"
| "typeof_object (JArr xs) = True"
| "typeof_object (JObj kvs) = True"
| "typeof_object _ = False"

text \<open>
  \<^verbatim>\<open>const isEnumeratedObject =
    enumOptions && enumOptions[0]?.value && typeof enumOptions[0].value === "object";\<close>
\<close>

definition isEnumeratedObject :: "'f WidgetProps \<Rightarrow> bool" where
  "isEnumeratedObject p =
     (case enumOptions (options p) of
        None \<Rightarrow> False
      | Some opts \<Rightarrow>
          (case opts of
             [] \<Rightarrow> False
           | opt # _ \<Rightarrow> truthy (option_value opt) \<and> typeof_object (option_value opt)))"

text \<open>
  \<open>enumOptions[index].value\<close>: reading \<open>value\<close> of \<open>undefined\<close>, when there is no such
  entry (or no list), throws a \<open>TypeError\<close>.
\<close>

datatype js_error = TypeError

definition enumOptions_value :: "EnumOptionsType list option \<Rightarrow> nat \<Rightarrow> js_error + jsval" where
  "enumOptions_value opts index =
     (case opts of
        None \<Rightarrow> Inl TypeError
      | Some xs \<Rightarrow> if index < length xs then Inr (option_value (xs ! index)) else Inl TypeError)"

text \<open>\<open>xs.map(f)\<close> with a callback that can throw: the first exception ends the loop.\<close>

fun map_throwing :: "('a \<Rightarrow> js_error + 'b) \<Rightarrow> 'a list \<Rightarrow> js_error + 'b list" where
  "map_throwing f [] = Inr []"
| "map_throwing f (x # xs) =
     (case f x of
        Inl e \<Rightarrow> Inl e
      | Inr y \<Rightarrow> (case map_throwing f xs of Inl e \<Rightarrow> Inl e | Inr ys \<Rightarrow> Inr (y # ys)))"

text \<open>
  \<open>handleChange\<close>; its dependencies hold everything it reads. The utility
  \<open>enumOptionsValueForIndex\<close> of the host library is the parameter \<open>valueForIndex\<close>; it
  receives the index as a string. \<open>multiple\<close> has been normalised to a boolean
  (\<open>typeof multiple === "undefined" ? false : !!multiple\<close>).
\<close>

definition SelectWidget_handleChange ::
  "(select_option_value \<Rightarrow> EnumOptionsType list option \<Rightarrow> jsval \<Rightarrow> jsval) \<Rightarrow>
   'f WidgetProps \<Rightarrow> SelectEvent \<Rightarrow> js_error + 'f effect list" where
  "SelectWidget_handleChange valueForIndex p event =
     (if truthy (multiple p) then
        (case map_throwing
                (\<lambda>opt. let index = js_Number opt in
                   if isEnumeratedObject p then enumOptions_value (enumOptions (options p)) index
                   else Inr (valueForIndex (Index index) (enumOptions (options p))
                               (emptyValue (options p))))
                (selectedOptions event) of
           Inl e \<Rightarrow> Inl e
         | Inr newValue \<Rightarrow> Inr [Invoke (onChange p) [JArr newValue]])
      else
        (let index = select_value event in
         if index = Placeholder then Inr [Invoke (onChange p) [emptyValue (options p)]]
         else if isEnumeratedObject p then
           (case enumOptions_value (enumOptions (options p)) (js_Number index) of
              Inl e \<Rightarrow> Inl e
            | Inr v \<Rightarrow> Inr [Invoke (onChange p) [v]])
         else Inr [Invoke (onChange p)
                     [valueForIndex index (enumOptions (options p)) (emptyValue (options p))]]))"



text \<open>
  \<^verbatim>\<open>const optionsList = enumOptions ||
    (Array.isArray(schema.examples)
      ? schema.examples.map((example) => ({ value: example, label: example })) : []);\<close>
\<close>

definition optionsList :: "'f WidgetProps \<Rightarrow> EnumOptionsType list" where
  "optionsList p =
     (case enumOptions (options p) of
        Some opts \<Rightarrow> opts
      | None \<Rightarrow>
          (case examples (schema p) of
             JArr xs \<Rightarrow> map (\<lambda>example. \<lparr>option_value = example, option_label = example\<rparr>) xs
           | _ \<Rightarrow> []))"




text \<open>
  The option elements the select renders: one per entry of \<open>optionsList\<close>, and the
  placeholder option when the select is not multiple. An event of the select carries
  the values of rendered options.
\<close>

definition rendered_option :: "'f WidgetProps \<Rightarrow> select_option_value \<Rightarrow> bool" where
  "rendered_option p v =
     (case v of Placeholder \<Rightarrow> \<not> truthy (multiple p) | Index i \<Rightarrow> i < length (optionsList p))"

text \<open>
  Modelled from the spec: \<open>enumOptionsValueForIndex\<close> of the host library's utilities,
  which is not among the sources; the spec names it as the option value/index mapping
  with empty-value handling. For the index of an entry of the option list it is that
  entry's value; for the empty string, or when there is no such entry (or no list), it
  is the empty value.
\<close>

definition enumOptionsValueForIndex ::
  "select_option_value \<Rightarrow> EnumOptionsType list option \<Rightarrow> jsval \<Rightarrow> jsval" where
  "enumOptionsValueForIndex valueIndex allEnumOptions emptyVal =
     (case valueIndex of
        Placeholder \<Rightarrow> emptyVal
      | Index i \<Rightarrow>
          (case allEnumOptions of
             None \<Rightarrow> emptyVal
           | Some opts \<Rightarrow> if i < length opts then option_value (opts ! i) else emptyVal))"

section \<open>TitleField\<close>

text \<open>
  The props of \<open>TitleField\<close>. \<open>getUiOptions\<close> of the host library's utilities, which
  turns the UI schema into the options bag, is a parameter.
\<close>

record 'u TitleFieldProps =
  title_id :: jsstring
  title :: jsval
  uiSchema :: 'u

text \<open>
  \<^verbatim>\<open><div id={id} className="title-field">
    <h2 className="text-xl font-bold">{uiOptions.title || title}</h2>
    <div className="divider my-2"></div>
  </div>\<close>
\<close>

definition TitleField :: "('u \<Rightarrow> UIOptions) \<Rightarrow> 'u TitleFieldProps \<Rightarrow> markup" where
  "TitleField getUiOptions props =
     (let uiOptions = getUiOptions (uiSchema props) in
      Element ''div'' [(''id'', JStr (title_id props)), (''className'', JStr (js ''title-field''))]
        [Element ''h2'' [(''className'', JStr (js ''text-xl font-bold''))]
           [Expr (js_or (options_title uiOptions) (title props))],
         Element ''div'' [(''className'', JStr (js ''divider my-2''))] []])"

section \<open>Effects of an event\<close>



section \<open>Sample props\<close>

text \<open>Props of a string field and of an array field, with three distinct host callbacks.\<close>

definition example_props :: "nat WidgetProps" where
  "example_props =
     \<lparr>id' = js ''root_f'', value' = JUndefined, required = JUndefined, disabled = JUndefined,
      readonly = JUndefined, autofocus = JUndefined, onChange = 1, onBlur = Some 2,
      onFocus = Some 3, onChangeOverride = None,
      options = \<lparr>options_title = JUndefined, accept = JUndefined, options_multiple = JUndefined, maxByteLength = None,
                  rows = JUndefined, emptyValue = JUndefined, enumOptions = None\<rparr>,
      schema = \<lparr>schema_type = JStr (js ''string''), examples = JUndefined,
                 schema_default = JUndefined, enumNames = None\<rparr>,
      type' = JUndefined, label = JUndefined, placeholder = JUndefined, multiple = JUndefined\<rparr>"

definition example_multi_props :: "nat WidgetProps" where
  "example_multi_props =
     example_props\<lparr>schema := (schema example_props)\<lparr>schema_type := JStr (js ''array'')\<rparr>\<rparr>"


text \<open>Props with a byte limit and a value.\<close>

definition example_limit_props :: "int \<Rightarrow> jsstring \<Rightarrow> nat WidgetProps" where
  "example_limit_props m v =
     example_props\<lparr>value' := JStr v, options := (options example_props)\<lparr>maxByteLength := Some m\<rparr>\<rparr>"

text \<open>Props of a select over two options whose values are objects, and over two strings.\<close>

definition example_object_options :: "EnumOptionsType list" where
  "example_object_options =
     [\<lparr>option_value = JObj [(''name'', JStr (js ''A''))], option_label = JStr (js ''A'')\<rparr>,
      \<lparr>option_value = JObj [(''name'', JStr (js ''B''))], option_label = JStr (js ''B'')\<rparr>]"

definition example_string_options :: "EnumOptionsType list" where
  "example_string_options =
     [\<lparr>option_value = JStr (js ''x''), option_label = JStr (js ''X'')\<rparr>,
      \<lparr>option_value = JStr (js ''y''), option_label = JStr (js ''Y'')\<rparr>]"

definition example_select_props :: "EnumOptionsType list \<Rightarrow> jsval \<Rightarrow> nat WidgetProps" where
  "example_select_props opts m =
     example_props\<lparr>multiple := m,
       options := (options example_props)\<lparr>enumOptions := Some opts, emptyValue := JNull\<rparr>\<rparr>"

text \<open>Props of a title with and without an override in the UI schema.\<close>

definition example_title_props :: "jsval \<Rightarrow> jsval TitleFieldProps" where
  "example_title_props override =
     \<lparr>title_id = js ''root__title'', title = JStr (js ''Address''), uiSchema = override\<rparr>"

definition example_getUiOptions :: "jsval \<Rightarrow> UIOptions" where
  "example_getUiOptions ui = (options example_props)\<lparr>options_title := ui\<rparr>"


section \<open>FileWidget: the aggregated read\<close>

lemma the_dataUrls_Some_iff:
  "the_dataUrls rs = Some us \<longleftrightarrow> rs = map Loaded us"
proof (induction rs arbitrary: us)
  case Nil
  then show ?case by auto
next
  case (Cons r rs)
  then show ?case by (cases r; cases us) auto
qed

lemma the_dataUrls_None_iff:
  "the_dataUrls rs = None \<longleftrightarrow> (Reading \<in> set rs \<or> (\<exists>e. Failed e \<in> set rs))"
  by (induction rs rule: the_dataUrls.induct) auto

lemma map_Loaded_eq [simp]: "map Loaded xs = map Loaded ys \<longleftrightarrow> xs = ys"
  by (rule inj_map_eq_map) (simp add: inj_on_def)

lemma set_update_Reading:
  "i < length rs \<Longrightarrow> rs ! i = Reading \<Longrightarrow>
   Failed e \<in> set (rs[i := r]) \<longleftrightarrow> (Failed e \<in> set rs \<or> r = Failed e)"
  by (auto simp: in_set_conv_nth nth_list_update) (metis reader_status.distinct(3))+

lemma inv_init:
  "FileWidget_handleChange p event = Some s \<Longrightarrow> FileWidget_inv p s"
  by (auto simp: FileWidget_handleChange_def settle_def FileWidget_inv_def on_fulfilled_def
      the_dataUrls_Some_iff the_dataUrls_None_iff
      split: option.splits)

lemma inv_step:
  "FileWidget_inv p s \<Longrightarrow> FileWidget_inv p (reader_fires p s ev)"
proof (cases ev)
  case (OnLoad i u)
  assume inv: "FileWidget_inv p s"
  show ?thesis
  proof (cases "i < length (readers s) \<and> readers s ! i = Reading")
    case False
    then show ?thesis using inv OnLoad by auto
  next
    case True
    then show ?thesis using inv OnLoad
      by (cases "dataUrlsPromise s")
         (auto simp: FileWidget_inv_def settle_def on_fulfilled_def the_dataUrls_Some_iff
            the_dataUrls_None_iff set_update_Reading split: option.splits)
  qed
next
  case (OnError i e)
  assume inv: "FileWidget_inv p s"
  show ?thesis
  proof (cases "i < length (readers s) \<and> readers s ! i = Reading")
    case False
    then show ?thesis using inv OnError by auto
  next
    case True
    then show ?thesis using inv OnError
      by (cases "dataUrlsPromise s")
         (auto simp: FileWidget_inv_def on_rejected_def set_update_Reading)
  qed
qed

lemma inv_foldl:
  "FileWidget_inv p s \<Longrightarrow> FileWidget_inv p (foldl (reader_fires p) s evs)"
  by (induction evs arbitrary: s) (simp_all add: inv_step)

lemma settle_readers [simp]: "readers (settle p s) = readers s"
  by (simp add: settle_def on_fulfilled_def split: promise_state.splits option.splits)

lemma reader_fires_length [simp]: "length (readers (reader_fires p s ev)) = length (readers s)"
  by (cases ev) (simp_all add: on_rejected_def split: promise_state.splits)

lemma foldl_reader_fires_length [simp]:
  "length (readers (foldl (reader_fires p) s evs)) = length (readers s)"
  by (induction evs arbitrary: s) simp_all






lemma run_inv:
  "FileWidget_run p event evs = Some s \<Longrightarrow> FileWidget_inv p s"
  by (auto simp: FileWidget_run_def intro: inv_foldl inv_init)

lemma run_None_iff: "FileWidget_run p event evs = None \<longleftrightarrow> files event = None"
  by (simp add: FileWidget_run_def FileWidget_handleChange_def split: option.splits)

lemma run_length:
  "FileWidget_run p event evs = Some s \<Longrightarrow> files event = Some fileList \<Longrightarrow>
   length (readers s) = length fileList"
  by (auto simp: FileWidget_run_def FileWidget_handleChange_def)





text \<open>
  C6. At every moment after a change event (after any sequence of reader events),
  \<open>onChange\<close> has been called at most once, and if it has been called then the
  aggregated promise is fulfilled and every selected file's read has loaded. With
  \<open>event.target.files\<close> null the handler returns before starting anything.
\<close>

theorem onChange_only_after_all_reads:
  "case FileWidget_run p event evs of
     None \<Rightarrow> files event = None
   | Some s \<Rightarrow>
       length (invocations (onChange p) (effects s)) \<le> 1 \<and>
       (invocations (onChange p) (effects s) \<noteq> [] \<longrightarrow>
          dataUrlsPromise s = Fulfilled \<and>
          (\<exists>dataUrls. readers s = map Loaded dataUrls \<and>
                      map_option length (files event) = Some (length dataUrls)))"
proof (cases "FileWidget_run p event evs")
  case None
  then have "files event = None" by (simp add: run_None_iff)
  with None show ?thesis by simp
next
  case (Some s)
  then obtain fileList where f: "files event = Some fileList"
    using run_None_iff [of p event evs] by (cases "files event") auto
  have inv: "FileWidget_inv p s" using Some by (rule run_inv)
  have len: "length (readers s) = length fileList" using Some f by (rule run_length)
  show ?thesis
  proof (cases "dataUrlsPromise s")
    case Pending
    then show ?thesis using inv Some by (simp add: FileWidget_inv_def invocations_def)
  next
    case Fulfilled
    then obtain us where "readers s = map Loaded us"
      and "effects s = effects (on_fulfilled p us (s\<lparr>effects := []\<rparr>))"
      using inv by (auto simp: FileWidget_inv_def)
    then show ?thesis using Some Fulfilled len f
      by (auto simp: on_fulfilled_def invocations_def)
  next
    case (Rejected e)
    then show ?thesis using inv Some by (simp add: FileWidget_inv_def invocations_def)
  qed
qed

theorem onChange_only_after_all_reads_witness:
  "FileWidget_run example_multi_props \<lparr>files = Some [JObj [], JObj []]\<rparr>
     [OnLoad (Suc 0) (js ''data:,b'')]
   = Some \<lparr>isLoading = True, readers = [Reading, Loaded (js ''data:,b'')],
           dataUrlsPromise = Pending, effects = []\<rparr> \<and>
   FileWidget_run example_multi_props \<lparr>files = Some [JObj [], JObj []]\<rparr>
     [OnLoad (Suc 0) (js ''data:,b''), OnLoad 0 (js ''data:,a'')]
   = Some \<lparr>isLoading = False, readers = [Loaded (js ''data:,a''), Loaded (js ''data:,b'')],
           dataUrlsPromise = Fulfilled,
           effects = [Invoke 1 [JArr [JStr (js ''data:,a''), JStr (js ''data:,b'')]]]\<rparr> \<and>
   invocations 1 [Invoke 1 [JArr [JStr (js ''data:,a''), JStr (js ''data:,b'')]] :: nat effect]
     \<noteq> [] \<and>
   FileWidget_run example_multi_props \<lparr>files = None\<rparr> [] = None"
  using onChange_only_after_all_reads [where p = example_multi_props
      and event = "\<lparr>files = Some [JObj [], JObj []]\<rparr>"
      and evs = "[OnLoad (Suc 0) (js ''data:,b''), OnLoad 0 (js ''data:,a'')]"]
  by (simp add: FileWidget_run_def FileWidget_handleChange_def settle_def on_fulfilled_def
      isMulti_def example_multi_props_def example_props_def invocations_def)





section \<open>Text controls: the byte limit\<close>








text \<open>
  The callback that \<open>useCallback\<close> hands back can be that of an earlier render: the
  dependencies of \<open>handleChange\<close> in \<open>TextareaWidget\<close> do not hold \<open>maxByteLength\<close>.
  After a render with limit 5 and one with limit 2 (same \<open>onChange\<close>, empty value), a
  change to a value of 3 bytes still reaches \<open>onChange\<close>.
\<close>

lemma TextareaWidget_stale_limit:
  "TextareaWidget_change [example_limit_props 5 [], example_limit_props 2 []]
     \<lparr>target_value = js ''abc''\<rparr> = [Invoke 1 [JStr (js ''abc'')]] \<and>
   TextareaWidget_handleChange (example_limit_props 2 []) \<lparr>target_value = js ''abc''\<rparr> = []"
  by (simp add: TextareaWidget_change_def TextareaWidget_mounted_def TextareaWidget_mount_def
      TextareaWidget_def useCallback_def useMemo_def TextareaWidget_deps_def
      TextareaWidget_handleChange_def over_limit_def encode_length_def
      example_limit_props_def example_props_def js_def)




section \<open>TitleField: the heading\<close>

text \<open>
  C9. The heading of every \<open>TitleField\<close> render is the \<open>title\<close> of the UI options when
  that override is set (truthy), and the \<open>title\<close> prop of the host otherwise.
\<close>

theorem TitleField_heading_text:
  fixes getUiOptions :: "'u \<Rightarrow> UIOptions" and props :: "'u TitleFieldProps"
  defines "override \<equiv> options_title (getUiOptions (uiSchema props))"
  shows "\<exists>heading.
           TitleField getUiOptions props =
             Element ''div''
               [(''id'', JStr (title_id props)), (''className'', JStr (js ''title-field''))]
               [Element ''h2'' [(''className'', JStr (js ''text-xl font-bold''))] [Expr heading],
                Element ''div'' [(''className'', JStr (js ''divider my-2''))] []] \<and>
           (truthy override \<longrightarrow> heading = override) \<and>
           (\<not> truthy override \<longrightarrow> heading = title props)"
  by (simp add: TitleField_def js_or_def override_def Let_def)

theorem TitleField_heading_text_witness:
  "TitleField example_getUiOptions (example_title_props (JStr (js ''Home address''))) =
     Element ''div''
       [(''id'', JStr (js ''root__title'')), (''className'', JStr (js ''title-field''))]
       [Element ''h2'' [(''className'', JStr (js ''text-xl font-bold''))]
          [Expr (JStr (js ''Home address''))],
        Element ''div'' [(''className'', JStr (js ''divider my-2''))] []] \<and>
   TitleField example_getUiOptions (example_title_props JUndefined) =
     Element ''div''
       [(''id'', JStr (js ''root__title'')), (''className'', JStr (js ''title-field''))]
       [Element ''h2'' [(''className'', JStr (js ''text-xl font-bold''))]
          [Expr (JStr (js ''Address''))],
        Element ''div'' [(''className'', JStr (js ''divider my-2''))] []]"
  using TitleField_heading_text [of example_getUiOptions "example_title_props (JStr (js ''Home address''))"]
    TitleField_heading_text [of example_getUiOptions "example_title_props JUndefined"]
  by (auto simp: example_getUiOptions_def example_title_props_def js_def)

section \<open>SelectWidget: the value of the selected option\<close>

lemma isEnumeratedObject_optionsList:
  "isEnumeratedObject p \<Longrightarrow> enumOptions (options p) = Some (optionsList p)"
  by (simp add: isEnumeratedObject_def optionsList_def split: option.splits)

lemma map_throwing_Inr:
  "(\<And>x. x \<in> set xs \<Longrightarrow> f x = Inr (g x)) \<Longrightarrow> map_throwing f xs = Inr (map g xs)"
  by (induction xs) simp_all

lemma enumOptions_value_in_range:
  "i < length opts \<Longrightarrow> enumOptions_value (Some opts) i = Inr (option_value (opts ! i))"
  by (simp add: enumOptions_value_def)

lemma enumOptionsValueForIndex_in_range:
  "i < length opts \<Longrightarrow>
   enumOptionsValueForIndex (Index i) (Some opts) emptyVal = option_value (opts ! i)"
  by (simp add: enumOptionsValueForIndex_def)

text \<open>
  C4 (as stated, refuted). \<open>BaseInputTemplate\<close> does not go through the host mapping:
  typing \<open>0\<close> into a text input whose options bag lists the values \<open>x\<close> and \<open>y\<close>
  passes \<open>"0"\<close> to \<open>onChange\<close>, while the mapping takes the index \<open>0\<close> to \<open>x\<close>.
\<close>

theorem BaseInputTemplate_value_is_not_mapped:
  "BaseInputTemplate_change (example_select_props example_string_options JUndefined)
     \<lparr>target_value = option_string (Index 0)\<rparr> = [Invoke 1 [JStr (js ''0'')]] \<and>
   enumOptionsValueForIndex (Index 0)
     (enumOptions (options (example_select_props example_string_options JUndefined)))
     (emptyValue (options (example_select_props example_string_options JUndefined)))
     = JStr (js ''x'') \<and>
   JStr (js ''0'') \<noteq> JStr (js ''x'')"
  by (simp add: BaseInputTemplate_change_def BaseInputTemplate_onChange_def over_limit_def
      example_select_props_def example_string_options_def example_props_def
      enumOptionsValueForIndex_def option_string_def decimal.simps js_def)

text \<open>
  C4 (amended). For every change event of \<open>SelectWidget\<close> that carries the values of
  rendered options, \<open>onChange\<close> is called once, with the result of the host mapping
  \<open>enumOptionsValueForIndex\<close> for the selected index, the option list and the
  configured empty value (in multiple mode, with the array of these results): the
  widget calls the mapping when the first option value is not an object, and reads the
  option list itself, with the same result, when it is, and for the empty selection.
  \<open>BaseInputTemplate\<close> does not use the mapping: \<open>_onChange\<close> passes the typed string,
  and \<open>options.emptyValue\<close> for the empty string.
\<close>

theorem SelectWidget_value_is_host_mapping:
  fixes p :: "'f WidgetProps"
  defines "hostValue \<equiv> \<lambda>f v. f v (enumOptions (options p)) (emptyValue (options p))"
  shows "((if truthy (multiple p) then \<forall>v \<in> set (selectedOptions event). rendered_option p v
           else rendered_option p (select_value event)) \<longrightarrow>
          SelectWidget_handleChange enumOptionsValueForIndex p event =
            Inr [Invoke (onChange p)
                   [if truthy (multiple p)
                    then JArr (map (\<lambda>v. hostValue enumOptionsValueForIndex (Index (js_Number v)))
                                 (selectedOptions event))
                    else hostValue enumOptionsValueForIndex (select_value event)]]) \<and>
         (\<not> isEnumeratedObject p \<longrightarrow>
          SelectWidget_handleChange valueForIndex p event =
            Inr [Invoke (onChange p)
                   [if truthy (multiple p)
                    then JArr (map (\<lambda>v. hostValue valueForIndex (Index (js_Number v)))
                                 (selectedOptions event))
                    else if select_value event = Placeholder then emptyValue (options p)
                    else hostValue valueForIndex (select_value event)]]) \<and>
         (\<forall>x \<in> set (BaseInputTemplate_onChange p tevent).
            x = Invoke (onChange p)
                  [if target_value tevent = [] then emptyValue (options p)
                   else JStr (target_value tevent)])"
proof (intro conjI impI)
  assume r: "if truthy (multiple p) then \<forall>v \<in> set (selectedOptions event). rendered_option p v
             else rendered_option p (select_value event)"
  show "SelectWidget_handleChange enumOptionsValueForIndex p event =
            Inr [Invoke (onChange p)
                   [if truthy (multiple p)
                    then JArr (map (\<lambda>v. hostValue enumOptionsValueForIndex (Index (js_Number v)))
                                 (selectedOptions event))
                    else hostValue enumOptionsValueForIndex (select_value event)]]"
  proof (cases "truthy (multiple p)")
    case True
    have "map_throwing
            (\<lambda>opt. let index = js_Number opt in
               if isEnumeratedObject p then enumOptions_value (enumOptions (options p)) index
               else Inr (enumOptionsValueForIndex (Index index) (enumOptions (options p))
                           (emptyValue (options p))))
            (selectedOptions event)
          = Inr (map (\<lambda>v. hostValue enumOptionsValueForIndex (Index (js_Number v)))
                   (selectedOptions event))"
    proof (rule map_throwing_Inr)
      fix v assume "v \<in> set (selectedOptions event)"
      with r True have rv: "rendered_option p v" by simp
      show "(let index = js_Number v in
               if isEnumeratedObject p then enumOptions_value (enumOptions (options p)) index
               else Inr (enumOptionsValueForIndex (Index index) (enumOptions (options p))
                           (emptyValue (options p))))
            = Inr (hostValue enumOptionsValueForIndex (Index (js_Number v)))"
      proof (cases "isEnumeratedObject p")
        case False
        then show ?thesis by (simp add: hostValue_def)
      next
        case e: True
        from rv True have "js_Number v < length (optionsList p)"
          by (cases v) (simp_all add: rendered_option_def js_Number_def)
        then show ?thesis
          using e isEnumeratedObject_optionsList [OF e]
          by (simp add: hostValue_def enumOptions_value_in_range
              enumOptionsValueForIndex_in_range)
      qed
    qed
    then show ?thesis using True by (simp add: SelectWidget_handleChange_def)
  next
    case False
    show ?thesis
    proof (cases "select_value event")
      case Placeholder
      then show ?thesis using False
        by (simp add: SelectWidget_handleChange_def hostValue_def enumOptionsValueForIndex_def)
    next
      case (Index i)
      show ?thesis
      proof (cases "isEnumeratedObject p")
        case e: False
        then show ?thesis using False Index
          by (simp add: SelectWidget_handleChange_def hostValue_def)
      next
        case e: True
        from r False Index have "i < length (optionsList p)"
          by (simp add: rendered_option_def)
        then show ?thesis
          using e isEnumeratedObject_optionsList [OF e] False Index
          by (simp add: SelectWidget_handleChange_def hostValue_def js_Number_def
              enumOptions_value_in_range enumOptionsValueForIndex_in_range)
      qed
    qed
  qed
next
  assume n: "\<not> isEnumeratedObject p"
  have "map_throwing
          (\<lambda>opt. let index = js_Number opt in
             if isEnumeratedObject p then enumOptions_value (enumOptions (options p)) index
             else Inr (valueForIndex (Index index) (enumOptions (options p))
                         (emptyValue (options p))))
          (selectedOptions event)
        = Inr (map (\<lambda>v. hostValue valueForIndex (Index (js_Number v))) (selectedOptions event))"
    by (rule map_throwing_Inr) (simp add: n hostValue_def)
  then show "SelectWidget_handleChange valueForIndex p event =
            Inr [Invoke (onChange p)
                   [if truthy (multiple p)
                    then JArr (map (\<lambda>v. hostValue valueForIndex (Index (js_Number v)))
                                 (selectedOptions event))
                    else if select_value event = Placeholder then emptyValue (options p)
                    else hostValue valueForIndex (select_value event)]]"
    using n by (simp add: SelectWidget_handleChange_def hostValue_def)
next
  show "\<forall>x \<in> set (BaseInputTemplate_onChange p tevent).
            x = Invoke (onChange p)
                  [if target_value tevent = [] then emptyValue (options p)
                   else JStr (target_value tevent)]"
    by (simp add: BaseInputTemplate_onChange_def)
qed

theorem SelectWidget_value_is_host_mapping_witness:
  "SelectWidget_handleChange enumOptionsValueForIndex
     (example_select_props example_object_options JUndefined)
     \<lparr>select_value = Index (Suc 0), selectedOptions = [Index (Suc 0)]\<rparr>
     = Inr [Invoke 1 [JObj [(''name'', JStr (js ''B''))]]] \<and>
   SelectWidget_handleChange enumOptionsValueForIndex
     (example_select_props example_string_options (JBool True))
     \<lparr>select_value = Index 0, selectedOptions = [Index 0, Index (Suc 0)]\<rparr>
     = Inr [Invoke 1 [JArr [JStr (js ''x''), JStr (js ''y'')]]] \<and>
   SelectWidget_handleChange enumOptionsValueForIndex
     (example_select_props example_string_options JUndefined)
     \<lparr>select_value = Placeholder, selectedOptions = []\<rparr>
     = Inr [Invoke 1 [JNull]] \<and>
   BaseInputTemplate_onChange (example_select_props example_string_options JUndefined)
     \<lparr>target_value = js ''0''\<rparr> = [Invoke 1 [JStr (js ''0'')]]"
proof -
  note defs = example_select_props_def example_object_options_def example_string_options_def
    example_props_def rendered_option_def optionsList_def isEnumeratedObject_def
    enumOptionsValueForIndex_def js_Number_def
  have 1: "SelectWidget_handleChange enumOptionsValueForIndex
     (example_select_props example_object_options JUndefined)
     \<lparr>select_value = Index (Suc 0), selectedOptions = [Index (Suc 0)]\<rparr>
     = Inr [Invoke 1 [JObj [(''name'', JStr (js ''B''))]]]"
    using SelectWidget_value_is_host_mapping
      [where p = "example_select_props example_object_options JUndefined"
         and event = "\<lparr>select_value = Index (Suc 0), selectedOptions = [Index (Suc 0)]\<rparr>"]
    by (simp add: defs)
  have 2: "SelectWidget_handleChange enumOptionsValueForIndex
     (example_select_props example_string_options (JBool True))
     \<lparr>select_value = Index 0, selectedOptions = [Index 0, Index (Suc 0)]\<rparr>
     = Inr [Invoke 1 [JArr [JStr (js ''x''), JStr (js ''y'')]]]"
    using SelectWidget_value_is_host_mapping
      [where p = "example_select_props example_string_options (JBool True)"
         and event = "\<lparr>select_value = Index 0, selectedOptions = [Index 0, Index (Suc 0)]\<rparr>"]
    by (simp add: defs)
  have 3: "SelectWidget_handleChange enumOptionsValueForIndex
     (example_select_props example_string_options JUndefined)
     \<lparr>select_value = Placeholder, selectedOptions = []\<rparr>
     = Inr [Invoke 1 [JNull]]"
    using SelectWidget_value_is_host_mapping
      [where p = "example_select_props example_string_options JUndefined"
         and event = "\<lparr>select_value = Placeholder, selectedOptions = []\<rparr>"]
    by (simp add: defs)
  have 4: "BaseInputTemplate_onChange (example_select_props example_string_options JUndefined)
     \<lparr>target_value = js ''0''\<rparr> = [Invoke 1 [JStr (js ''0'')]]"
    using SelectWidget_value_is_host_mapping
      [where p = "example_select_props example_string_options JUndefined"
         and tevent = "\<lparr>target_value = js ''0''\<rparr>"]
    by (simp add: defs BaseInputTemplate_onChange_def over_limit_def js_def)
  from 1 2 3 4 show ?thesis by blast
qed

section \<open>Markup and state\<close>









section \<open>Effects of every event\<close>









end
